theory Spec2Isabelle
  imports Complex_Main
begin

section \<open>Python values\<close>

text \<open>
  A Python \<open>str\<close> is a sequence of Unicode code points; it is modelled as the list of
  its code points, so that \<open>len\<close> and slicing count what Python counts. \<open>lit\<close> turns an
  ASCII literal of the source into such a list.
\<close>

type_synonym pystr = "nat list"

definition lit :: "string \<Rightarrow> pystr" where
  "lit cs = map of_char cs"

text \<open>\<open>str(n)\<close> for a non-negative integer, used in interpreter messages.\<close>

fun dec :: "nat \<Rightarrow> pystr" where
  "dec n = (if n < 10 then [48 + n] else dec (n div 10) @ [48 + n mod 10])"

text \<open>\<open>repr(s)\<close> of a string without quotes or escapes in it.\<close>

definition repr :: "pystr \<Rightarrow> pystr" where
  "repr k = [39] @ k @ [39]"

text \<open>
  Exceptions: the class and the text \<open>str(e)\<close>. Every class here derives from
  \<open>Exception\<close>, which is what \<open>except Exception\<close> catches; \<open>TranscriptsDisabled\<close> and
  \<open>NoTranscriptFound\<close> are the two classes of \<open>youtube_transcript_api._errors\<close> that
  the source names, and \<open>OtherException\<close> carries the class name of any further one a
  library raises. The interpreter's own signals outside \<open>Exception\<close>
  (\<open>KeyboardInterrupt\<close>, \<open>SystemExit\<close>) are not modelled.
\<close>

datatype exn_class =
    TranscriptsDisabled | NoTranscriptFound
  | KeyError | TypeError | IndexError
  | FileNotFoundError | FileExistsError | IsADirectoryError
  | OtherException pystr

datatype exn = Exn exn_class pystr

fun exn_cls :: "exn \<Rightarrow> exn_class" where
  "exn_cls (Exn c m) = c"

fun exn_str :: "exn \<Rightarrow> pystr" where
  "exn_str (Exn c m) = m"

text \<open>The values of a transcript segment: \<open>text\<close> is a str, \<open>start\<close> and \<open>duration\<close> floats.\<close>

datatype pyval = PStr pystr | PFloat rat

fun is_str :: "pyval \<Rightarrow> bool" where
  "is_str (PStr x) = True"
| "is_str (PFloat q) = False"

fun str_of :: "pyval \<Rightarrow> pystr" where
  "str_of (PStr x) = x"
| "str_of (PFloat q) = []"

text \<open>\<open>d[k]\<close> on a dict: KeyError when the key is missing.\<close>

definition getitem :: "(pystr \<Rightarrow> 'v option) \<Rightarrow> pystr \<Rightarrow> exn + 'v" where
  "getitem d k = (case d k of None \<Rightarrow> Inl (Exn KeyError (repr k)) | Some v \<Rightarrow> Inr v)"

text \<open>\<open>xs[0]\<close> on a list: IndexError when the list is empty.\<close>

definition index0 :: "'a list \<Rightarrow> exn + 'a" where
  "index0 xs = (case xs of [] \<Rightarrow> Inl (Exn IndexError (lit ''list index out of range'')) | x # _ \<Rightarrow> Inr x)"

text \<open>
  \<open>sep.join(items)\<close>: the items with \<open>sep\<close> between each two; TypeError at the first
  item that is not a str.
\<close>

definition py_join :: "pystr \<Rightarrow> pystr list \<Rightarrow> pystr" where
  "py_join sep xs = (case xs of [] \<Rightarrow> [] | x # rest \<Rightarrow> x @ concat (map (\<lambda>y. sep @ y) rest))"

definition str_join :: "pystr \<Rightarrow> pyval list \<Rightarrow> exn + pystr" where
  "str_join sep vs =
     (if list_all is_str vs then Inr (py_join sep (map str_of vs))
      else Inl (Exn TypeError
             (lit ''sequence item '' @ dec (length (takeWhile is_str vs))
              @ lit '': expected str instance, float found'')))"

text \<open>\<open>int(x)\<close> on a float: truncation towards zero.\<close>

definition py_int :: "rat \<Rightarrow> int" where
  "py_int q = (if 0 \<le> q then \<lfloor>q\<rfloor> else \<lceil>q\<rceil>)"

text \<open>\<open>xs[:k]\<close>: the first \<open>k\<close> items; a negative \<open>k\<close> counts from the end.\<close>

definition slice_to :: "'a list \<Rightarrow> int \<Rightarrow> 'a list" where
  "slice_to xs k = (if 0 \<le> k then take (nat k) xs else take (length xs - nat (- k)) xs)"

text \<open>Truthiness of a value that is \<open>None\<close> or a str: \<open>None\<close> and \<open>''\<close> are falsy.\<close>

fun truthy :: "pystr option \<Rightarrow> bool" where
  "truthy None = False"
| "truthy (Some x) = (x \<noteq> [])"

section \<open>The outside world and the state of a run\<close>

type_synonym segment = "pystr \<Rightarrow> pyval option"

text \<open>
  A stream as the video library lists it. \<open>default_filename\<close> is a file name, one path
  component: the library builds it from the title with the separators removed.
\<close>

record stream =
  itag :: nat
  includes_audio_track :: bool
  includes_video_track :: bool
  subtype :: pystr
  default_filename :: pystr

record message =
  role :: pystr
  content :: pystr

record chat_request =
  req_model :: pystr
  req_messages :: "message list"
  req_temperature :: rat
  req_max_tokens :: int

record choice =
  choice_message :: "pystr \<Rightarrow> pystr option"

text \<open>
  What the libraries and remote services answer. Each call either raises or returns:
  \<^item> \<open>yt_video_id url\<close>: \<open>YouTube(url)\<close> and its \<open>video_id\<close>;
  \<^item> \<open>yt_streams url\<close>: \<open>YouTube(url).streams\<close>, in the library's order;
  \<^item> \<open>api_get_transcript video_id languages\<close>: \<open>YouTubeTranscriptApi.get_transcript\<close>;
  \<^item> \<open>stream_filesize s\<close>: \<open>s.filesize\<close>, which the library may have to ask for;
  \<^item> \<open>stream_fetch s\<close>: the transfer of the stream's bytes, which either completes
    with all of them or raises after some of them;
  \<^item> \<open>whisper_transcribe model bytes\<close>: \<open>openai.Audio.transcribe\<close>;
  \<^item> \<open>tiktoken_encode model text\<close>: \<open>tiktoken.encoding_for_model(model).encode(text)\<close>;
  \<^item> \<open>chat_completion_create request\<close>: \<open>openai.ChatCompletion.create\<close>, the
    \<open>choices\<close> of the response;
  \<^item> \<open>secrets\<close>: \<open>st.secrets\<close>;
  \<^item> \<open>cwd_tail\<close>: the working directory of the process without its leading slash
    (\<open>os.getcwd()\<close> is an absolute path).
\<close>

record world =
  yt_video_id :: "pystr \<Rightarrow> exn + pystr"
  yt_streams :: "pystr \<Rightarrow> exn + stream list"
  api_get_transcript :: "pystr \<Rightarrow> pystr list \<Rightarrow> exn + segment list"
  stream_filesize :: "stream \<Rightarrow> exn + nat"
  stream_fetch :: "stream \<Rightarrow> (exn \<times> nat list) + nat list"
  whisper_transcribe :: "pystr \<Rightarrow> nat list \<Rightarrow> exn + (pystr \<Rightarrow> pystr option)"
  tiktoken_encode :: "pystr \<Rightarrow> pystr \<Rightarrow> exn + nat list"
  chat_completion_create :: "chat_request \<Rightarrow> exn + choice list"
  secrets :: "pystr \<Rightarrow> pystr option"
  cwd_tail :: pystr

datatype node = File "nat list" | Dir

datatype widget =
    St_page_config pystr pystr
  | St_title pystr
  | St_text_input pystr pystr
  | St_button pystr
  | St_markdown pystr
  | St_spinner pystr
  | St_error pystr
  | St_warning pystr
  | St_subheader pystr
  | St_expander_write pystr pystr
  | St_write pystr
  | St_columns nat
  | St_download_button nat pystr pystr pystr

text \<open>The stage functions of the source, with the argument of each invocation.\<close>

datatype call =
    Call_get_youtube_transcript pystr
  | Call_download_audio pystr
  | Call_transcribe_audio pystr
  | Call_generate_summary pystr int

text \<open>The calls the program makes to the libraries and services.\<close>

datatype request =
    Transcript_request pystr "pystr list"
  | Stream_download stream pystr
  | Whisper_request pystr "nat list"
  | Chat_request chat_request

text \<open>
  The state of one run: what the page shows (in order) and the local file system, which
  the program changes; and two logs that the model keeps to state what was invoked and
  what was sent: the stage functions entered so far and the requests made so far. The
  file system maps the absolute path of each file and directory to what is there.
\<close>

record state =
  display :: "widget list"
  files :: "pystr \<Rightarrow> node option"
  calls :: "call list"
  requests :: "request list"

section \<open>Statements that may raise\<close>

type_synonym 'a prog = "state \<Rightarrow> (exn + 'a) \<times> state"

definition ret :: "'a \<Rightarrow> 'a prog" where
  "ret x s = (Inr x, s)"

definition lift :: "exn + 'a \<Rightarrow> 'a prog" where
  "lift r s = (r, s)"

definition bnd :: "'a prog \<Rightarrow> ('a \<Rightarrow> 'b prog) \<Rightarrow> 'b prog" where
  "bnd m f s = (case m s of (Inl e, s') \<Rightarrow> (Inl e, s') | (Inr x, s') \<Rightarrow> f x s')"

text \<open>\<open>try: body except Exception as e: handler\<close>.\<close>

definition try_except :: "'a prog \<Rightarrow> (exn \<Rightarrow> 'a prog) \<Rightarrow> 'a prog" where
  "try_except body handler s = (case body s of (Inl e, s') \<Rightarrow> handler e s' | (Inr x, s') \<Rightarrow> (Inr x, s'))"

definition show_widget :: "widget \<Rightarrow> unit prog" where
  "show_widget wd s = (Inr (), s\<lparr>display := display s @ [wd]\<rparr>)"

definition enter :: "call \<Rightarrow> unit prog" where
  "enter c s = (Inr (), s\<lparr>calls := calls s @ [c]\<rparr>)"

definition send :: "request \<Rightarrow> exn + 'a \<Rightarrow> 'a prog" where
  "send rq answer s = (answer, s\<lparr>requests := requests s @ [rq]\<rparr>)"

subsection \<open>The file system\<close>

definition errno_msg :: "string \<Rightarrow> pystr \<Rightarrow> pystr" where
  "errno_msg what p = lit what @ lit '': '' @ repr p"

text \<open>\<open>os.getcwd()\<close> and \<open>os.path.join(a, b)\<close> on POSIX paths; 47 is the slash.\<close>

definition getcwd :: "world \<Rightarrow> pystr" where
  "getcwd w = 47 # cwd_tail w"

definition isabs :: "pystr \<Rightarrow> bool" where
  "isabs p \<longleftrightarrow> take 1 p = [47]"

definition os_path_join :: "pystr \<Rightarrow> pystr \<Rightarrow> pystr" where
  "os_path_join a b =
     (if isabs b then b
      else if a = [] \<or> last a = 47 then a @ b
      else a @ [47] @ b)"

text \<open>
  The file that a path names: a relative path is taken from the working directory.
  Every operation below looks its path up this way.
\<close>

definition resolve :: "world \<Rightarrow> pystr \<Rightarrow> pystr" where
  "resolve w p = os_path_join (getcwd w) p"

text \<open>
  \<open>Path(p).mkdir(exist_ok=True)\<close> and \<open>os.makedirs(p, exist_ok=True)\<close>, the parent
  being the working directory, which exists.
\<close>

definition mkdir_exist_ok :: "world \<Rightarrow> pystr \<Rightarrow> unit prog" where
  "mkdir_exist_ok w p s =
     (case files s (resolve w p) of
        None \<Rightarrow> (Inr (), s\<lparr>files := (files s)(resolve w p \<mapsto> Dir)\<rparr>)
      | Some Dir \<Rightarrow> (Inr (), s)
      | Some (File b) \<Rightarrow> (Inl (Exn FileExistsError (errno_msg ''[Errno 17] File exists'' p)), s))"

text \<open>\<open>open(p, "rb")\<close> and reading the file.\<close>

definition open_rb :: "world \<Rightarrow> pystr \<Rightarrow> (nat list) prog" where
  "open_rb w p s =
     (case files s (resolve w p) of
        None \<Rightarrow> (Inl (Exn FileNotFoundError (errno_msg ''[Errno 2] No such file or directory'' p)), s)
      | Some Dir \<Rightarrow> (Inl (Exn IsADirectoryError (errno_msg ''[Errno 21] Is a directory'' p)), s)
      | Some (File b) \<Rightarrow> (Inr b, s))"

text \<open>\<open>open(p, "wb")\<close>: the file is created, or emptied when it is there.\<close>

definition open_wb :: "world \<Rightarrow> pystr \<Rightarrow> unit prog" where
  "open_wb w p s =
     (case files s (resolve w p) of
        Some Dir \<Rightarrow> (Inl (Exn IsADirectoryError (errno_msg ''[Errno 21] Is a directory'' p)), s)
      | _ \<Rightarrow> (Inr (), s\<lparr>files := (files s)(resolve w p \<mapsto> File [])\<rparr>))"

text \<open>Writing bytes to the file opened at \<open>p\<close>, and closing it.\<close>

definition write_bytes :: "world \<Rightarrow> pystr \<Rightarrow> nat list \<Rightarrow> unit prog" where
  "write_bytes w p b s = (Inr (), s\<lparr>files := (files s)(resolve w p \<mapsto> File b)\<rparr>)"

text \<open>\<open>os.remove(p)\<close>.\<close>

definition os_remove :: "world \<Rightarrow> pystr \<Rightarrow> unit prog" where
  "os_remove w p s =
     (case files s (resolve w p) of
        None \<Rightarrow> (Inl (Exn FileNotFoundError (errno_msg ''[Errno 2] No such file or directory'' p)), s)
      | Some Dir \<Rightarrow> (Inl (Exn IsADirectoryError (errno_msg ''[Errno 21] Is a directory'' p)), s)
      | Some (File b) \<Rightarrow> (Inr (), s\<lparr>files := (files s)(resolve w p := None)\<rparr>))"

section \<open>The four stages\<close>

subsection \<open>Transcript Fetcher\<close>

text \<open>The list comprehension \<open>[t['text'] for t in transcript]\<close>.\<close>

fun segment_texts :: "segment list \<Rightarrow> exn + pyval list" where
  "segment_texts [] = Inr []"
| "segment_texts (t # ts) =
     (case getitem t (lit ''text'') of
        Inl e \<Rightarrow> Inl e
      | Inr v \<Rightarrow> (case segment_texts ts of Inl e \<Rightarrow> Inl e | Inr vs \<Rightarrow> Inr (v # vs)))"

text \<open>The body of the \<open>try\<close> of \<open>get_youtube_transcript\<close>.\<close>

definition get_youtube_transcript_try :: "world \<Rightarrow> pystr \<Rightarrow> pystr prog" where
  "get_youtube_transcript_try w url =
     bnd (lift (yt_video_id w url)) (\<lambda>video_id.
     bnd (send (Transcript_request video_id [lit ''en''])
            (api_get_transcript w video_id [lit ''en''])) (\<lambda>transcript.
     bnd (lift (segment_texts transcript)) (\<lambda>parts.
     lift (str_join (lit '' '') parts))))"

definition get_youtube_transcript :: "world \<Rightarrow> pystr \<Rightarrow> (pystr option) prog" where
  "get_youtube_transcript w url =
     bnd (enter (Call_get_youtube_transcript url)) (\<lambda>_.
     try_except
       (bnd (get_youtube_transcript_try w url) (\<lambda>r. ret (Some r)))
       (\<lambda>e. if exn_cls e = TranscriptsDisabled \<or> exn_cls e = NoTranscriptFound then ret None
            else bnd (show_widget (St_error (lit ''Error: '' @ exn_str e))) (\<lambda>_. ret None)))"

subsection \<open>Audio Fallback Extractor\<close>

text \<open>\<open>streams.filter(only_audio=True, file_extension='mp4')\<close> and \<open>.first()\<close>.\<close>

definition only_audio_mp4 :: "stream \<Rightarrow> bool" where
  "only_audio_mp4 sm \<longleftrightarrow>
     subtype sm = lit ''mp4'' \<and> includes_audio_track sm \<and> \<not> includes_video_track sm"

definition first :: "'a list \<Rightarrow> 'a option" where
  "first xs = (case xs of [] \<Rightarrow> None | x # _ \<Rightarrow> Some x)"

definition temp_audio :: pystr where
  "temp_audio = lit ''temp_audio''"

text \<open>
  \<open>audio_stream.download(output_path=...)\<close>, as the video library does it. The target
  directory is the output path made absolute, created when missing; the file path is
  the stream's default file name in it. When a file of the stream's size is already
  there, nothing is fetched. Otherwise the file is opened for writing, which empties
  it, and the bytes are written as they arrive; a transfer that raises leaves what
  arrived before. The path of the file is returned.
\<close>

definition target_directory :: "world \<Rightarrow> pystr \<Rightarrow> pystr prog" where
  "target_directory w output_path =
     bnd (ret (if output_path \<noteq> [] then
                 (if isabs output_path then output_path else os_path_join (getcwd w) output_path)
               else getcwd w)) (\<lambda>d.
     bnd (mkdir_exist_ok w d) (\<lambda>_. ret d))"

definition exists_at_path :: "world \<Rightarrow> stream \<Rightarrow> pystr \<Rightarrow> bool prog" where
  "exists_at_path w sm file_path s =
     (case files s (resolve w file_path) of
        Some (File b) \<Rightarrow>
          (case stream_filesize w sm of
             Inl e \<Rightarrow> (Inl e, s)
           | Inr n \<Rightarrow> (Inr (length b = n), s))
      | _ \<Rightarrow> (Inr False, s))"

definition stream_download :: "world \<Rightarrow> stream \<Rightarrow> pystr \<Rightarrow> pystr prog" where
  "stream_download w sm output_path =
     bnd (send (Stream_download sm output_path) (Inr ())) (\<lambda>_.
     bnd (target_directory w output_path) (\<lambda>d.
     bnd (ret (os_path_join d (default_filename sm))) (\<lambda>file_path.
     bnd (exists_at_path w sm file_path) (\<lambda>skip.
     if skip then ret file_path
     else
       bnd (lift (stream_filesize w sm)) (\<lambda>_.
       bnd (open_wb w file_path) (\<lambda>_.
       (case stream_fetch w sm of
          Inl (e, arrived) \<Rightarrow> bnd (write_bytes w file_path arrived) (\<lambda>_. lift (Inl e))
        | Inr b \<Rightarrow> bnd (write_bytes w file_path b) (\<lambda>_. ret file_path))))))))"

definition download_audio_try :: "world \<Rightarrow> pystr \<Rightarrow> (pystr option) prog" where
  "download_audio_try w url =
     bnd (lift (yt_video_id w url)) (\<lambda>_.
     bnd (lift (yt_streams w url)) (\<lambda>streams.
     (case first (filter only_audio_mp4 streams) of
        Some audio_stream \<Rightarrow>
          bnd (mkdir_exist_ok w temp_audio) (\<lambda>_.
          bnd (stream_download w audio_stream temp_audio) (\<lambda>p. ret (Some p)))
      | None \<Rightarrow> ret None)))"

definition download_audio :: "world \<Rightarrow> pystr \<Rightarrow> (pystr option) prog" where
  "download_audio w url =
     bnd (enter (Call_download_audio url)) (\<lambda>_.
     try_except (download_audio_try w url)
       (\<lambda>e. bnd (show_widget (St_error (lit ''Download error: '' @ exn_str e))) (\<lambda>_. ret None)))"

subsection \<open>Speech-to-Text Transcriber\<close>

definition transcribe_audio_try :: "world \<Rightarrow> pystr \<Rightarrow> pystr prog" where
  "transcribe_audio_try w file_path =
     bnd (open_rb w file_path) (\<lambda>audio_file.
     bnd (send (Whisper_request (lit ''whisper-1'') audio_file)
            (whisper_transcribe w (lit ''whisper-1'') audio_file)) (\<lambda>transcript.
     lift (getitem transcript (lit ''text''))))"

definition transcribe_audio :: "world \<Rightarrow> pystr \<Rightarrow> (pystr option) prog" where
  "transcribe_audio w file_path =
     bnd (enter (Call_transcribe_audio file_path)) (\<lambda>_.
     try_except
       (bnd (transcribe_audio_try w file_path) (\<lambda>r. ret (Some r)))
       (\<lambda>e. bnd (show_widget (St_error (lit ''Transcription error: '' @ exn_str e))) (\<lambda>_. ret None)))"

subsection \<open>Summarizer\<close>

definition count_tokens :: "world \<Rightarrow> pystr \<Rightarrow> exn + int" where
  "count_tokens w txt =
     (case tiktoken_encode w (lit ''gpt-3.5-turbo'') txt of
        Inl e \<Rightarrow> Inl e
      | Inr toks \<Rightarrow> Inr (int (length toks)))"

text \<open>
  \<open>int(max_tokens * 3.5)\<close>: the product is exact in floating point for every integer
  below \<open>2 ^ 50\<close> in absolute value, so it is computed over the rationals.
\<close>

definition char_limit :: "int \<Rightarrow> int" where
  "char_limit max_tokens = py_int (of_int max_tokens * (7 / 2))"

definition system_prompt :: pystr where
  "system_prompt = lit ''You are a helpful assistant that summarizes video transcripts.''"

definition user_prefix :: pystr where
  "user_prefix = lit ''Create a detailed summary with key points in bullet format:'' @ [10, 10]"

definition summary_request :: "pystr \<Rightarrow> chat_request" where
  "summary_request txt =
     \<lparr>req_model = lit ''gpt-3.5-turbo'',
      req_messages =
        [\<lparr>role = lit ''system'', content = system_prompt\<rparr>,
         \<lparr>role = lit ''user'', content = user_prefix @ txt\<rparr>],
      req_temperature = 3 / 10,
      req_max_tokens = 500\<rparr>"

definition generate_summary_try :: "world \<Rightarrow> pystr \<Rightarrow> int \<Rightarrow> pystr prog" where
  "generate_summary_try w txt max_tokens =
     bnd (lift (count_tokens w txt)) (\<lambda>n.
     bnd (ret (if n > max_tokens then slice_to txt (char_limit max_tokens) else txt)) (\<lambda>txt'.
     bnd (send (Chat_request (summary_request txt'))
            (chat_completion_create w (summary_request txt'))) (\<lambda>response.
     bnd (lift (index0 response)) (\<lambda>c.
     lift (getitem (choice_message c) (lit ''content''))))))"

definition generate_summary :: "world \<Rightarrow> pystr \<Rightarrow> int \<Rightarrow> (pystr option) prog" where
  "generate_summary w txt max_tokens =
     bnd (enter (Call_generate_summary txt max_tokens)) (\<lambda>_.
     try_except
       (bnd (generate_summary_try w txt max_tokens) (\<lambda>r. ret (Some r)))
       (\<lambda>e. bnd (show_widget (St_error (lit ''Summarization error: '' @ exn_str e))) (\<lambda>_. ret None)))"

section \<open>The pipeline driver\<close>

text \<open>Lines 84 to 91: the transcript, from the captions or from the audio.\<close>

definition acquire_transcript :: "world \<Rightarrow> pystr \<Rightarrow> (pystr option) prog" where
  "acquire_transcript w url =
     bnd (get_youtube_transcript w url) (\<lambda>transcript.
     if \<not> truthy transcript then
       bnd (download_audio w url) (\<lambda>audio_path.
       if truthy audio_path then
         (case audio_path of
            Some p \<Rightarrow>
              bnd (transcribe_audio w p) (\<lambda>transcript'.
              bnd (os_remove w p) (\<lambda>_. ret transcript'))
          | None \<Rightarrow> ret transcript)
       else ret transcript)
     else ret transcript)"

text \<open>Lines 93 to 113: what the page shows for the transcript obtained.\<close>

definition present_results :: "world \<Rightarrow> pystr option \<Rightarrow> unit prog" where
  "present_results w transcript =
     (case transcript of
        Some t \<Rightarrow>
          if t \<noteq> [] then
            bnd (show_widget (St_subheader (128221 # lit '' Full Transcript''))) (\<lambda>_.
            bnd (show_widget (St_expander_write (lit ''View Transcript'') t)) (\<lambda>_.
            bnd (show_widget (St_subheader (128204 # lit '' AI-Generated Summary''))) (\<lambda>_.
            bnd (generate_summary w t 3000) (\<lambda>summary.
            (case summary of
               Some sm \<Rightarrow>
                 if sm \<noteq> [] then
                   bnd (show_widget (St_write sm)) (\<lambda>_.
                   bnd (show_widget (St_columns 2)) (\<lambda>_.
                   bnd (show_widget (St_download_button 1 (lit ''Download Summary'')
                          sm (lit ''summary.txt''))) (\<lambda>_.
                   show_widget (St_download_button 2 (lit ''Download Transcript'')
                          t (lit ''transcript.txt'')))))
                 else show_widget (St_error (lit ''Failed to generate summary''))
             | None \<Rightarrow> show_widget (St_error (lit ''Failed to generate summary'')))))))
          else show_widget
                 (St_error (lit ''Could not process video. Please check URL or try another video.''))
      | None \<Rightarrow> show_widget
                 (St_error (lit ''Could not process video. Please check URL or try another video.'')))"

text \<open>Lines 81 to 115: the body of \<open>if st.button("Generate Summary")\<close>.\<close>

definition pipeline :: "world \<Rightarrow> pystr \<Rightarrow> unit prog" where
  "pipeline w url =
     (if url \<noteq> [] then
        bnd (show_widget (St_spinner (lit ''Analyzing video...''))) (\<lambda>_.
        bnd (acquire_transcript w url) (\<lambda>transcript.
        present_results w transcript))
      else show_widget (St_warning (lit ''Please enter a valid YouTube URL'')))"

text \<open>
  The script, run once: \<open>url\<close> is the content of the text field and \<open>clicked\<close> tells
  whether the button fired.
\<close>

definition app :: "world \<Rightarrow> pystr \<Rightarrow> bool \<Rightarrow> unit prog" where
  "app w url clicked =
     bnd (lift (getitem (secrets w) (lit ''OPENAI_API_KEY''))) (\<lambda>_.
     bnd (show_widget (St_page_config (lit ''YouTube Video Summarizer'') (lit ''wide''))) (\<lambda>_.
     bnd (show_widget (St_title (127909 # lit '' AI-Powered YouTube Video Summarizer''))) (\<lambda>_.
     bnd (show_widget (St_text_input (lit ''Enter YouTube Video URL:'') (lit ''https://youtube.com/...''))) (\<lambda>_.
     bnd (show_widget (St_button (lit ''Generate Summary''))) (\<lambda>_.
     bnd (if clicked then pipeline w url else ret ()) (\<lambda>_.
     bnd (show_widget (St_markdown (lit ''---''))) (\<lambda>_.
     show_widget (St_markdown (lit ''Built with '' @ [10084, 65039] @ lit '' using OpenAI, Streamlit, and Python'')))))))))"

section \<open>The specification's wording\<close>

text \<open>
  The texts in their order, a single space between each two: the specification's
  description of the Transcript Fetcher's output, written without reference to
  \<open>py_join\<close>.
\<close>

fun space_joined :: "pystr list \<Rightarrow> pystr" where
  "space_joined [] = []"
| "space_joined [x] = x"
| "space_joined (x # y # ys) = x @ [32] @ space_joined (y # ys)"

section \<open>Example runs\<close>

definition example_url :: pystr where
  "example_url = lit ''https://youtube.com/watch?v=abc123''"

definition seg :: "pystr \<Rightarrow> rat \<Rightarrow> rat \<Rightarrow> segment" where
  "seg t st du = [lit ''text'' \<mapsto> PStr t, lit ''start'' \<mapsto> PFloat st, lit ''duration'' \<mapsto> PFloat du]"

definition example_segments :: "segment list" where
  "example_segments = [seg (lit ''Hello world'') 0 (3 / 2), seg (lit ''this is a test.'') (3 / 2) 2]"

definition progressive_stream :: stream where
  "progressive_stream =
     \<lparr>itag = 18, includes_audio_track = True, includes_video_track = True,
      subtype = lit ''mp4'', default_filename = lit ''Talk.mp4''\<rparr>"

definition webm_audio_stream :: stream where
  "webm_audio_stream =
     \<lparr>itag = 251, includes_audio_track = True, includes_video_track = False,
      subtype = lit ''webm'', default_filename = lit ''Talk.webm''\<rparr>"

definition mp4_audio_stream :: stream where
  "mp4_audio_stream =
     \<lparr>itag = 140, includes_audio_track = True, includes_video_track = False,
      subtype = lit ''mp4'', default_filename = lit ''Talk.mp4''\<rparr>"

definition mp4_audio_stream_low :: stream where
  "mp4_audio_stream_low =
     \<lparr>itag = 139, includes_audio_track = True, includes_video_track = False,
      subtype = lit ''mp4'', default_filename = lit ''Talk.mp4''\<rparr>"

definition example_streams :: "stream list" where
  "example_streams =
     [progressive_stream, webm_audio_stream, mp4_audio_stream, mp4_audio_stream_low]"

text \<open>
  A video with English captions, a tokenizer of one token per character and a
  completion service that answers with one choice.
\<close>

definition example_world :: world where
  "example_world =
     \<lparr>yt_video_id = (\<lambda>u. Inr (lit ''abc123'')),
      yt_streams = (\<lambda>u. Inr example_streams),
      api_get_transcript = (\<lambda>v ls. Inr example_segments),
      stream_filesize = (\<lambda>sm. Inr 4),
      stream_fetch = (\<lambda>sm. Inr [82, 73, 70, 70]),
      whisper_transcribe = (\<lambda>m b. Inr [lit ''text'' \<mapsto> lit ''spoken words'']),
      tiktoken_encode = (\<lambda>m t. Inr t),
      chat_completion_create = (\<lambda>rq. Inr
        [\<lparr>choice_message = [lit ''role'' \<mapsto> lit ''assistant'', lit ''content'' \<mapsto> lit ''- a greeting'']\<rparr>]),
      secrets = [lit ''OPENAI_API_KEY'' \<mapsto> lit ''sk-test''],
      cwd_tail = lit ''app''\<rparr>"

definition init_state :: state where
  "init_state = \<lparr>display = [], files = Map.empty, calls = [], requests = []\<rparr>"

text \<open>The same video with captions disabled.\<close>

definition no_captions_world :: world where
  "no_captions_world = example_world
     \<lparr>api_get_transcript :=
        (\<lambda>v ls. Inl (Exn TranscriptsDisabled (lit ''Subtitles are disabled for this video'')))\<rparr>"

text \<open>The same video with a caption track of one segment without words.\<close>

definition empty_captions_world :: world where
  "empty_captions_world = example_world\<lparr>api_get_transcript := (\<lambda>v ls. Inr [seg [] 0 (3 / 2)])\<rparr>"

text \<open>Captions disabled and the speech-to-text service out of reach.\<close>

definition whisper_down_world :: world where
  "whisper_down_world = no_captions_world
     \<lparr>whisper_transcribe :=
        (\<lambda>m b. Inl (Exn (OtherException (lit ''APIConnectionError''))
                     (lit ''Error communicating with OpenAI'')))\<rparr>"

text \<open>Captions disabled and no audio-only MP4 stream.\<close>

definition no_audio_world :: world where
  "no_audio_world = no_captions_world
     \<lparr>yt_streams := (\<lambda>u. Inr [progressive_stream, webm_audio_stream])\<rparr>"

text \<open>Captions disabled and a transfer of the audio that breaks before the first byte.\<close>

definition transfer_down_world :: world where
  "transfer_down_world = no_captions_world
     \<lparr>stream_fetch :=
        (\<lambda>sm. Inl (Exn (OtherException (lit ''URLError'')) (lit ''connection reset''), []))\<rparr>"

text \<open>A completion service that is out of reach, and one that answers with an empty text.\<close>

definition chat_down_world :: world where
  "chat_down_world = example_world
     \<lparr>chat_completion_create :=
        (\<lambda>rq. Inl (Exn (OtherException (lit ''RateLimitError'')) (lit ''Rate limit reached'')))\<rparr>"

definition empty_summary_world :: world where
  "empty_summary_world = example_world
     \<lparr>chat_completion_create := (\<lambda>rq. Inr
        [\<lparr>choice_message = [lit ''role'' \<mapsto> lit ''assistant'', lit ''content'' \<mapsto> []]\<rparr>])\<rparr>"

text \<open>A text of 10501 characters, which the example tokenizer counts as 10501 tokens.\<close>

definition long_text :: pystr where
  "long_text = replicate 10501 97"

section \<open>Reading the logs\<close>

fun is_download_call :: "call \<Rightarrow> bool" where
  "is_download_call (Call_download_audio u) = True"
| "is_download_call c = False"

fun is_download_button :: "widget \<Rightarrow> bool" where
  "is_download_button (St_download_button col label body file_name) = True"
| "is_download_button wd = False"

section \<open>Basic facts\<close>

lemmas prog_defs = ret_def lift_def bnd_def try_except_def show_widget_def enter_def send_def

lemma lit_eq_Nil [simp]: "lit cs = [] \<longleftrightarrow> cs = []"
  by (simp add: lit_def)

lemma py_join_space_joined: "py_join [32] xs = space_joined xs"
proof (induction xs rule: space_joined.induct)
  case 1
  show ?case by (simp add: py_join_def)
next
  case (2 x)
  show ?case by (simp add: py_join_def)
next
  case (3 x y ys)
  then show ?case by (simp add: py_join_def)
qed

lemma segment_texts_strs:
  "map (\<lambda>t. t (lit ''text'')) segs = map (\<lambda>x. Some (PStr x)) texts
   \<Longrightarrow> segment_texts segs = Inr (map PStr texts)"
proof (induction segs arbitrary: texts)
  case Nil
  then show ?case by simp
next
  case (Cons t ts)
  then obtain x xs where texts: "texts = x # xs" by (cases texts) auto
  with Cons.prems have "t (lit ''text'') = Some (PStr x)"
    and "map (\<lambda>t. t (lit ''text'')) ts = map (\<lambda>x. Some (PStr x)) xs" by auto
  with Cons.IH [of xs] texts show ?case by (simp add: getitem_def)
qed

lemma str_join_strs: "str_join sep (map PStr texts) = Inr (py_join sep texts)"
proof -
  have "list_all is_str (map PStr texts)" by (induction texts) auto
  moreover have "map str_of (map PStr texts) = texts" by (induction texts) auto
  ultimately show ?thesis by (simp add: str_join_def)
qed

subsection \<open>Paths\<close>

lemma isabs_getcwd: "isabs (getcwd w)"
  by (simp add: isabs_def getcwd_def)

lemma isabs_join: "isabs a \<or> isabs b \<Longrightarrow> isabs (os_path_join a b)"
  by (cases a) (auto simp: isabs_def os_path_join_def)


lemma resolve_isabs: "isabs p \<Longrightarrow> resolve w p = p"
  by (simp add: resolve_def os_path_join_def)

lemma isabs_not_Nil: "isabs p \<Longrightarrow> p \<noteq> []"
  by (auto simp: isabs_def)


lemmas fs_defs = mkdir_exist_ok_def open_rb_def open_wb_def write_bytes_def os_remove_def
  exists_at_path_def target_directory_def

subsection \<open>What each stage does to the state\<close>

lemma fetcher_total: "\<exists>r s'. get_youtube_transcript w url s = (Inr r, s')"
  by (auto simp: get_youtube_transcript_def prog_defs split: prod.splits sum.splits)

lemma download_total: "\<exists>r s'. download_audio w url s = (Inr r, s')"
  by (auto simp: download_audio_def prog_defs split: prod.splits sum.splits)

lemma transcribe_total: "\<exists>r s'. transcribe_audio w p s = (Inr r, s')"
  by (auto simp: transcribe_audio_def prog_defs split: prod.splits sum.splits)

lemma summary_total: "\<exists>r s'. generate_summary w t m s = (Inr r, s')"
  by (auto simp: generate_summary_def prog_defs split: prod.splits sum.splits)

lemma fetcher_frame:
  "calls (snd (get_youtube_transcript w url s)) = calls s @ [Call_get_youtube_transcript url]"
  "files (snd (get_youtube_transcript w url s)) = files s"
  by (auto simp: get_youtube_transcript_def get_youtube_transcript_try_def prog_defs
      split: prod.splits sum.splits)

lemma fetcher_result_indep:
  "fst (get_youtube_transcript w url s) = fst (get_youtube_transcript w url s')"
  by (auto simp: get_youtube_transcript_def get_youtube_transcript_try_def prog_defs
      split: prod.splits sum.splits)

lemma transcribe_frame:
  "calls (snd (transcribe_audio w p s)) = calls s @ [Call_transcribe_audio p]"
  "files (snd (transcribe_audio w p s)) = files s"
  by (auto simp: transcribe_audio_def transcribe_audio_try_def open_rb_def prog_defs
      split: prod.splits sum.splits option.splits node.splits)

lemma summary_frame:
  "calls (snd (generate_summary w t m s)) = calls s @ [Call_generate_summary t m]"
  "files (snd (generate_summary w t m s)) = files s"
  by (auto simp: generate_summary_def generate_summary_try_def prog_defs
      split: prod.splits sum.splits)

lemma target_directory_isabs:
  "target_directory w output_path s = (Inr d, s') \<Longrightarrow> isabs d"
  by (auto simp: fs_defs prog_defs isabs_join isabs_getcwd
      split: prod.splits sum.splits option.splits node.splits if_splits)

lemma target_directory_calls:
  "calls (snd (target_directory w output_path s)) = calls s"
  by (auto simp: fs_defs prog_defs split: prod.splits sum.splits option.splits node.splits)

lemma stream_download_calls:
  "calls (snd (stream_download w sm output_path s)) = calls s"
proof -
  let ?s0 = "s\<lparr>requests := requests s @ [Stream_download sm output_path]\<rparr>"
  have "calls (snd (target_directory w output_path ?s0)) = calls s"
    by (simp add: target_directory_calls)
  then show ?thesis
    by (auto simp: stream_download_def exists_at_path_def open_wb_def write_bytes_def prog_defs
        split: prod.splits sum.splits option.splits node.splits)
qed

lemma stream_download_file:
  assumes "stream_download w sm output_path s = (Inr p, s')"
  shows "isabs p \<and> (\<exists>b. files s' p = Some (File b))"
proof -
  let ?s0 = "s\<lparr>requests := requests s @ [Stream_download sm output_path]\<rparr>"
  from assms obtain d s1 where td: "target_directory w output_path ?s0 = (Inr d, s1)"
    by (auto simp: stream_download_def prog_defs split: prod.splits sum.splits)
  let ?p = "os_path_join d (default_filename sm)"
  from td have "isabs d" by (rule target_directory_isabs)
  then have abs: "isabs ?p" by (simp add: isabs_join)
  then have res: "resolve w ?p = ?p" by (rule resolve_isabs)
  from assms td res have "p = ?p \<and> (\<exists>b. files s' ?p = Some (File b))"
    by (auto simp: stream_download_def exists_at_path_def open_wb_def write_bytes_def prog_defs
        split: prod.splits sum.splits option.splits node.splits if_splits)
  with abs show ?thesis by auto
qed

lemma download_frame:
  "calls (snd (download_audio w url s)) = calls s @ [Call_download_audio url]"
proof -
  have "calls s2 = calls s1" if "stream_download w sm temp_audio s1 = (r, s2)" for sm s1 r s2
    using that stream_download_calls [of w sm temp_audio s1] by simp
  then show ?thesis
    by (fastforce simp: download_audio_def download_audio_try_def mkdir_exist_ok_def prog_defs
        split: prod.splits sum.splits option.splits node.splits)
qed

lemma download_file:
  assumes "download_audio w url s = (Inr (Some p), s')"
  shows "p \<noteq> [] \<and> isabs p \<and> (\<exists>b. files s' p = Some (File b))"
proof -
  from assms obtain sm s1 where "stream_download w sm temp_audio s1 = (Inr p, s')"
    by (auto simp: download_audio_def download_audio_try_def prog_defs
        split: prod.splits sum.splits option.splits if_splits)
  from stream_download_file [OF this] show ?thesis by (auto simp: isabs_not_Nil)
qed

subsection \<open>The driver, path by path\<close>

lemma acquire_transcript_cases:
  obtains (captions) t s1 where
      "get_youtube_transcript w url s = (Inr t, s1)" "truthy t"
      "acquire_transcript w url s = (Inr t, s1)"
  | (no_audio) t s1 s2 where
      "get_youtube_transcript w url s = (Inr t, s1)" "\<not> truthy t"
      "download_audio w url s1 = (Inr None, s2)"
      "acquire_transcript w url s = (Inr t, s2)"
  | (audio) t s1 p s2 r s3 b where
      "get_youtube_transcript w url s = (Inr t, s1)" "\<not> truthy t"
      "download_audio w url s1 = (Inr (Some p), s2)"
      "transcribe_audio w p s2 = (Inr r, s3)"
      "files s3 p = Some (File b)"
      "acquire_transcript w url s = (Inr r, s3\<lparr>files := (files s3)(p := None)\<rparr>)"
proof -
  obtain t s1 where f: "get_youtube_transcript w url s = (Inr t, s1)"
    using fetcher_total by blast
  show thesis
  proof (cases "truthy t")
    case True
    with f have "acquire_transcript w url s = (Inr t, s1)"
      by (simp add: acquire_transcript_def bnd_def ret_def)
    with f True show thesis by (rule captions)
  next
    case False
    obtain a s2 where d: "download_audio w url s1 = (Inr a, s2)"
      using download_total by blast
    show thesis
    proof (cases a)
      case None
      with f False d have "acquire_transcript w url s = (Inr t, s2)"
        by (simp add: acquire_transcript_def bnd_def ret_def)
      with f False d None show thesis by (auto intro: no_audio)
    next
      case (Some p)
      with d download_file [of w url s1 p s2] obtain b where
        p: "p \<noteq> []" and ab: "isabs p" and b: "files s2 p = Some (File b)" by auto
      from ab have res: "resolve w p = p" by (rule resolve_isabs)
      obtain r s3 where tr: "transcribe_audio w p s2 = (Inr r, s3)"
        using transcribe_total by blast
      from tr transcribe_frame(2) [of w p s2] have "files s3 = files s2" by simp
      with b have b3: "files s3 p = Some (File b)" by simp
      with f False d Some p tr res
      have "acquire_transcript w url s = (Inr r, s3\<lparr>files := (files s3)(p := None)\<rparr>)"
        by (simp add: acquire_transcript_def bnd_def ret_def os_remove_def)
      with f False d Some tr b3 show thesis by (auto intro: audio)
    qed
  qed
qed

lemma present_results_files: "files (snd (present_results w t s)) = files s"
proof (cases "truthy t")
  case False
  then show ?thesis by (cases t) (auto simp: present_results_def show_widget_def)
next
  case True
  then obtain x where t: "t = Some x" "x \<noteq> []" by (cases t) auto
  let ?s3 = "s\<lparr>display := display s @ [St_subheader (128221 # lit '' Full Transcript''),
      St_expander_write (lit ''View Transcript'') x,
      St_subheader (128204 # lit '' AI-Generated Summary'')]\<rparr>"
  obtain r s' where g: "generate_summary w x 3000 ?s3 = (Inr r, s')"
    using summary_total by blast
  from g summary_frame(2) [of w x 3000 ?s3] have "files s' = files s" by simp
  with t g show ?thesis
    by (auto simp: present_results_def show_widget_def bnd_def split: option.splits)
qed

lemma present_results_calls:
  "calls (snd (present_results w t s)) =
     calls s @ (case t of None \<Rightarrow> [] | Some x \<Rightarrow> if x \<noteq> [] then [Call_generate_summary x 3000] else [])"
proof (cases "truthy t")
  case False
  then show ?thesis by (cases t) (auto simp: present_results_def show_widget_def)
next
  case True
  then obtain x where t: "t = Some x" "x \<noteq> []" by (cases t) auto
  let ?s3 = "s\<lparr>display := display s @ [St_subheader (128221 # lit '' Full Transcript''),
      St_expander_write (lit ''View Transcript'') x,
      St_subheader (128204 # lit '' AI-Generated Summary'')]\<rparr>"
  obtain r s' where g: "generate_summary w x 3000 ?s3 = (Inr r, s')"
    using summary_total by blast
  from g summary_frame(1) [of w x 3000 ?s3] have "calls s' = calls s @ [Call_generate_summary x 3000]" by simp
  with t g show ?thesis
    by (auto simp: present_results_def show_widget_def bnd_def split: option.splits)
qed

lemma present_results_total: "fst (present_results w t s) = Inr ()"
proof (cases "truthy t")
  case False
  then show ?thesis by (cases t) (auto simp: present_results_def show_widget_def)
next
  case True
  then obtain x where t: "t = Some x" "x \<noteq> []" by (cases t) auto
  let ?s3 = "s\<lparr>display := display s @ [St_subheader (128221 # lit '' Full Transcript''),
      St_expander_write (lit ''View Transcript'') x,
      St_subheader (128204 # lit '' AI-Generated Summary'')]\<rparr>"
  obtain r s' where g: "generate_summary w x 3000 ?s3 = (Inr r, s')"
    using summary_total by blast
  with t g show ?thesis
    by (auto simp: present_results_def show_widget_def bnd_def split: option.splits)
qed

lemma pipeline_unfold:
  assumes "url \<noteq> []"
    and "acquire_transcript w url (s\<lparr>display := display s @ [St_spinner (lit ''Analyzing video...'')]\<rparr>) = (Inr t, s')"
  shows "pipeline w url s = present_results w t s'"
  using assms by (simp add: pipeline_def bnd_def show_widget_def)

lemma pipeline_total: "fst (pipeline w url s) = Inr ()"
proof (cases "url = []")
  case True
  then show ?thesis by (simp add: pipeline_def show_widget_def)
next
  case False
  let ?s0 = "s\<lparr>display := display s @ [St_spinner (lit ''Analyzing video...'')]\<rparr>"
  obtain t s' where "acquire_transcript w url ?s0 = (Inr t, s')"
    by (rule acquire_transcript_cases [of w url ?s0]) auto
  with False show ?thesis by (simp add: pipeline_unfold present_results_total)
qed

lemma present_results_no_download:
  "filter is_download_call (calls (snd (present_results w t s))) = filter is_download_call (calls s)"
  by (simp add: present_results_calls split: option.splits)

lemma summary_result_indep:
  "fst (generate_summary w x m s) = fst (generate_summary w x m s')"
  by (auto simp: generate_summary_def generate_summary_try_def prog_defs
      split: prod.splits sum.splits)

lemma summary_display:
  "\<exists>ws. display (snd (generate_summary w x m s)) = display s @ ws
     \<and> filter is_download_button ws = []"
  by (auto simp: generate_summary_def generate_summary_try_def prog_defs
      split: prod.splits sum.splits)

lemma char_limit_3000: "char_limit 3000 = 10500"
  by (simp add: char_limit_def py_int_def)

lemma summary_requests:
  assumes "count_tokens w txt = Inr n"
  shows "requests (snd (generate_summary w txt m s)) = requests s @
      [Chat_request (summary_request (if n > m then slice_to txt (char_limit m) else txt))]"
  using assms
  by (auto simp: generate_summary_def generate_summary_try_def prog_defs
      split: prod.splits sum.splits)



subsection \<open>Evaluating the example runs\<close>

lemma lit_inj [simp]: "lit a = lit b \<longleftrightarrow> a = b"
proof -
  have "inj (of_char :: char \<Rightarrow> nat)" by (rule inj_of_char)
  then show ?thesis unfolding lit_def by (simp add: inj_map_eq_map)
qed

lemma lit_append: "lit a @ lit b = lit (a @ b)"
  by (simp add: lit_def)

lemma lit_append2: "lit a @ lit b @ c = lit (a @ b) @ c"
  by (simp add: lit_def)

lemma isabs_lit [simp]: "isabs (lit a) \<longleftrightarrow> take 1 a = ''/''"
proof -
  have "[47] = lit ''/''" by (simp add: lit_def)
  moreover have "take 1 (lit a) = lit (take 1 a)" by (simp add: lit_def take_map)
  ultimately show ?thesis by (simp add: isabs_def)
qed

lemma slash_lit: "47 # lit a = lit (CHR ''/'' # a)"
  by (simp add: lit_def)

lemma os_path_join_lit [simp]:
  "os_path_join (lit a) (lit b) =
     lit (if take 1 b = ''/'' then b
          else if a = [] \<or> last a = CHR ''/'' then a @ b
          else a @ ''/'' @ b)"
proof -
  have "last (lit a) = 47 \<longleftrightarrow> last a = CHR ''/''" if "a \<noteq> []"
  proof -
    from that have "last (lit a) = of_char (last a)" by (simp add: lit_def last_map)
    moreover have "(47::nat) = of_char CHR ''/''" by simp
    ultimately show ?thesis by (simp only: inj_eq [OF inj_of_char])
  qed
  moreover have "[47] = lit ''/''" by (simp add: lit_def)
  ultimately show ?thesis
    by (cases "a = []") (auto simp: os_path_join_def lit_append)
qed

lemmas run_defs = pipeline_def acquire_transcript_def get_youtube_transcript_def
  get_youtube_transcript_try_def download_audio_def download_audio_try_def stream_download_def
  transcribe_audio_def transcribe_audio_try_def present_results_def generate_summary_def
  generate_summary_try_def count_tokens_def fs_defs prog_defs first_def only_audio_mp4_def
  getitem_def index0_def str_join_def py_join_def temp_audio_def resolve_def getcwd_def
  slash_lit

lemmas world_defs = whisper_down_world_def no_captions_world_def example_world_def
  example_url_def init_state_def example_streams_def example_segments_def seg_def
  empty_captions_world_def no_audio_world_def chat_down_world_def empty_summary_world_def
  transfer_down_world_def
  progressive_stream_def webm_audio_stream_def mp4_audio_stream_def mp4_audio_stream_low_def

text \<open>
  The two end-to-end scenarios of the specification: a video with English captions
  ends with transcript, summary and both download buttons; a video without captions
  and without an audio-only MP4 stream ends with the final error message.
\<close>

lemma example_run_with_captions:
  "display (snd (pipeline example_world example_url init_state)) =
     [St_spinner (lit ''Analyzing video...''),
      St_subheader (128221 # lit '' Full Transcript''),
      St_expander_write (lit ''View Transcript'') (lit ''Hello world this is a test.''),
      St_subheader (128204 # lit '' AI-Generated Summary''),
      St_write (lit ''- a greeting''),
      St_columns 2,
      St_download_button 1 (lit ''Download Summary'') (lit ''- a greeting'') (lit ''summary.txt''),
      St_download_button 2 (lit ''Download Transcript'') (lit ''Hello world this is a test.'')
        (lit ''transcript.txt'')]"
  "calls (snd (pipeline example_world example_url init_state)) =
     [Call_get_youtube_transcript example_url,
      Call_generate_summary (lit ''Hello world this is a test.'') 3000]"
  by (simp_all add: run_defs world_defs lit_append lit_append2)

lemma example_run_without_captions_or_audio:
  "display (snd (pipeline no_audio_world example_url init_state)) =
     [St_spinner (lit ''Analyzing video...''),
      St_error (lit ''Could not process video. Please check URL or try another video.'')]"
  "calls (snd (pipeline no_audio_world example_url init_state)) =
     [Call_get_youtube_transcript example_url, Call_download_audio example_url]"
  by (simp_all add: run_defs world_defs lit_append lit_append2)

text \<open>
  The download as the library does it: the path it returns is absolute; a file of the
  stream's size that is already there is kept and nothing is fetched; a transfer that
  breaks leaves the file it had opened, here empty, and the pipeline ends without a
  transcription.
\<close>

lemma example_download_returns_absolute_path:
  "fst (download_audio no_captions_world example_url init_state)
     = Inr (Some (lit ''/app/temp_audio/Talk.mp4''))"
  by (simp add: run_defs world_defs lit_append lit_append2)

lemma example_download_keeps_same_size_file:
  "files (snd (download_audio no_captions_world example_url
       (init_state\<lparr>files := [lit ''/app/temp_audio'' \<mapsto> Dir,
          lit ''/app/temp_audio/Talk.mp4'' \<mapsto> File [1, 2, 3, 4]]\<rparr>)))
     (lit ''/app/temp_audio/Talk.mp4'') = Some (File [1, 2, 3, 4])"
  "files (snd (download_audio no_captions_world example_url
       (init_state\<lparr>files := [lit ''/app/temp_audio'' \<mapsto> Dir,
          lit ''/app/temp_audio/Talk.mp4'' \<mapsto> File [1, 2, 3]]\<rparr>)))
     (lit ''/app/temp_audio/Talk.mp4'') = Some (File [82, 73, 70, 70])"
  by (simp_all add: run_defs world_defs lit_append lit_append2)

lemma example_download_transfer_fails:
  "fst (download_audio transfer_down_world example_url init_state) = Inr None"
  "files (snd (download_audio transfer_down_world example_url init_state))
     (lit ''/app/temp_audio/Talk.mp4'') = Some (File [])"
  "display (snd (download_audio transfer_down_world example_url init_state))
     = [St_error (lit ''Download error: connection reset'')]"
  "calls (snd (pipeline transfer_down_world example_url init_state))
     = [Call_get_youtube_transcript example_url, Call_download_audio example_url]"
  by (simp_all add: run_defs world_defs lit_append lit_append2)

section \<open>The claims\<close>

text \<open>
  C1. Whenever the driver invokes \<open>transcribe_audio\<close> on a path, that path holds no file
  once the driver has finished, whatever the transcription call did (returned a text,
  or raised and was caught); the driver itself finishes without an exception.
\<close>

theorem audio_file_removed:
  assumes "Call_transcribe_audio p \<in> set (calls (snd (pipeline w url s)))"
    and "Call_transcribe_audio p \<notin> set (calls s)"
  shows "files (snd (pipeline w url s)) p = None \<and> fst (pipeline w url s) = Inr ()"
proof -
  let ?s0 = "s\<lparr>display := display s @ [St_spinner (lit ''Analyzing video...'')]\<rparr>"
  have url: "url \<noteq> []"
  proof
    assume "url = []"
    then have "calls (snd (pipeline w url s)) = calls s"
      by (simp add: pipeline_def show_widget_def)
    with assms show False by simp
  qed
  have "files (snd (pipeline w url s)) p = None"
  proof (cases rule: acquire_transcript_cases [of w url ?s0])
    case (captions t s1)
    from captions(1) fetcher_frame(1) [of w url ?s0]
    have "calls s1 = calls s @ [Call_get_youtube_transcript url]" by simp
    with url captions(3) assms have False
      by (auto simp: pipeline_unfold present_results_calls split: option.splits if_splits)
    then show ?thesis ..
  next
    case (no_audio t s1 s2)
    from no_audio(1) fetcher_frame(1) [of w url ?s0]
    have "calls s1 = calls s @ [Call_get_youtube_transcript url]" by simp
    with no_audio(3) download_frame [of w url s1]
    have "calls s2 = calls s @ [Call_get_youtube_transcript url, Call_download_audio url]" by simp
    with url no_audio(4) assms have False
      by (auto simp: pipeline_unfold present_results_calls split: option.splits if_splits)
    then show ?thesis ..
  next
    case (audio t s1 q s2 r s3 b)
    from audio(1) fetcher_frame(1) [of w url ?s0]
    have "calls s1 = calls s @ [Call_get_youtube_transcript url]" by simp
    with audio(3) download_frame [of w url s1]
    have "calls s2 = calls s @ [Call_get_youtube_transcript url, Call_download_audio url]" by simp
    with audio(4) transcribe_frame(1) [of w q s2]
    have "calls s3 = calls s @ [Call_get_youtube_transcript url, Call_download_audio url,
        Call_transcribe_audio q]" by simp
    with url audio(6) assms have "p = q"
      by (auto simp: pipeline_unfold present_results_calls split: option.splits if_splits)
    with url audio(6) show ?thesis
      by (simp add: pipeline_unfold present_results_files)
  qed
  with pipeline_total show ?thesis by simp
qed

theorem audio_file_removed_witness:
  "Call_transcribe_audio (lit ''/app/temp_audio/Talk.mp4'')
     \<in> set (calls (snd (pipeline whisper_down_world example_url init_state)))
   \<and> Call_transcribe_audio (lit ''/app/temp_audio/Talk.mp4'') \<notin> set (calls init_state)
   \<and> fst (transcribe_audio whisper_down_world (lit ''/app/temp_audio/Talk.mp4'')
        (init_state\<lparr>files := [lit ''/app/temp_audio/Talk.mp4'' \<mapsto> File [82, 73, 70, 70]]\<rparr>)) = Inr None
   \<and> files (snd (pipeline whisper_down_world example_url init_state)) (lit ''/app/temp_audio/Talk.mp4'') = None
   \<and> fst (pipeline whisper_down_world example_url init_state) = Inr ()
   \<and> Call_transcribe_audio (lit ''/app/temp_audio/Talk.mp4'')
     \<in> set (calls (snd (pipeline no_captions_world example_url init_state)))
   \<and> fst (transcribe_audio no_captions_world (lit ''/app/temp_audio/Talk.mp4'')
        (init_state\<lparr>files := [lit ''/app/temp_audio/Talk.mp4'' \<mapsto> File [82, 73, 70, 70]]\<rparr>))
       = Inr (Some (lit ''spoken words''))
   \<and> files (snd (pipeline no_captions_world example_url init_state)) (lit ''/app/temp_audio/Talk.mp4'') = None
   \<and> fst (pipeline no_captions_world example_url init_state) = Inr ()"
proof -
  have h1: "Call_transcribe_audio (lit ''/app/temp_audio/Talk.mp4'')
     \<in> set (calls (snd (pipeline whisper_down_world example_url init_state)))"
    by (simp add: run_defs world_defs lit_append lit_append2)
  have h2: "Call_transcribe_audio (lit ''/app/temp_audio/Talk.mp4'') \<notin> set (calls init_state)"
    by (simp add: init_state_def)
  have h3: "fst (transcribe_audio whisper_down_world (lit ''/app/temp_audio/Talk.mp4'')
        (init_state\<lparr>files := [lit ''/app/temp_audio/Talk.mp4'' \<mapsto> File [82, 73, 70, 70]]\<rparr>)) = Inr None"
    by (simp add: run_defs world_defs)
  have h4: "Call_transcribe_audio (lit ''/app/temp_audio/Talk.mp4'')
     \<in> set (calls (snd (pipeline no_captions_world example_url init_state)))"
    by (simp add: run_defs world_defs lit_append lit_append2)
  have h5: "fst (transcribe_audio no_captions_world (lit ''/app/temp_audio/Talk.mp4'')
        (init_state\<lparr>files := [lit ''/app/temp_audio/Talk.mp4'' \<mapsto> File [82, 73, 70, 70]]\<rparr>))
       = Inr (Some (lit ''spoken words''))"
    by (simp add: run_defs world_defs)
  from audio_file_removed [OF h1 h2] audio_file_removed [OF h4 h2] h1 h2 h3 h4 h5
  show ?thesis by simp
qed

text \<open>
  C2. When the tokenizer counts at most 3000 tokens, the Summarizer's request carries
  the text unmodified; when it counts more, the request carries the first 10500
  characters of the text, \<open>10500 = int(3000 * 3.5)\<close>. In the request the text follows
  the fixed instruction of the user message.
\<close>

theorem truncation_by_token_count:
  assumes "count_tokens w txt = Inr n"
  shows "(n \<le> 3000 \<longrightarrow> requests (snd (generate_summary w txt 3000 s))
            = requests s @ [Chat_request (summary_request txt)])
       \<and> (n > 3000 \<longrightarrow> requests (snd (generate_summary w txt 3000 s))
            = requests s @ [Chat_request (summary_request (take 10500 txt))]
          \<and> length (take 10500 txt) \<le> 10500)
       \<and> content (last (req_messages (summary_request txt))) = user_prefix @ txt"
  using summary_requests [OF assms, of 3000 s]
  by (simp add: char_limit_3000 slice_to_def summary_request_def)

theorem truncation_by_token_count_witness:
  "count_tokens example_world (lit ''Hello'') = Inr 5
   \<and> (5::int) \<le> 3000
   \<and> requests (snd (generate_summary example_world (lit ''Hello'') 3000 init_state))
       = [Chat_request (summary_request (lit ''Hello''))]
   \<and> count_tokens example_world long_text = Inr 10501
   \<and> (10501::int) > 3000
   \<and> requests (snd (generate_summary example_world long_text 3000 init_state))
       = [Chat_request (summary_request (take 10500 long_text))]
   \<and> length (take 10500 long_text) = 10500"
proof -
  have h1: "count_tokens example_world (lit ''Hello'') = Inr 5"
    by (simp add: count_tokens_def example_world_def lit_def)
  have h2: "count_tokens example_world long_text = Inr 10501"
    by (simp add: count_tokens_def example_world_def long_text_def)
  have h3: "length (take 10500 long_text) = 10500"
    by (simp add: long_text_def)
  from truncation_by_token_count [OF h1, of init_state]
    truncation_by_token_count [OF h2, of init_state] h1 h2 h3
  show ?thesis by (simp add: init_state_def)
qed

text \<open>
  C3. When the transcript service returns a list of segments whose \<open>text\<close> fields are
  the strings \<open>texts\<close>, in this order, the Transcript Fetcher returns these strings in
  the same order with a single space between each two, and displays nothing.
\<close>

theorem fetcher_joins_segments:
  assumes "yt_video_id w url = Inr vid"
    and "api_get_transcript w vid [lit ''en''] = Inr segs"
    and "map (\<lambda>t. t (lit ''text'')) segs = map (\<lambda>x. Some (PStr x)) texts"
  shows "fst (get_youtube_transcript w url s) = Inr (Some (space_joined texts))
       \<and> display (snd (get_youtube_transcript w url s)) = display s"
proof -
  have "lit '' '' = [32]" by (simp add: lit_def)
  with assms segment_texts_strs [OF assms(3)] str_join_strs [of "[32]" texts]
  show ?thesis
    by (simp add: get_youtube_transcript_def get_youtube_transcript_try_def prog_defs
        py_join_space_joined)
qed

theorem fetcher_joins_segments_witness:
  "yt_video_id example_world example_url = Inr (lit ''abc123'')
   \<and> api_get_transcript example_world (lit ''abc123'') [lit ''en''] = Inr example_segments
   \<and> map (\<lambda>t. t (lit ''text'')) example_segments
       = map (\<lambda>x. Some (PStr x)) [lit ''Hello world'', lit ''this is a test.'']
   \<and> fst (get_youtube_transcript example_world example_url init_state)
       = Inr (Some (lit ''Hello world this is a test.''))
   \<and> display (snd (get_youtube_transcript example_world example_url init_state)) = []"
proof -
  have h1: "yt_video_id example_world example_url = Inr (lit ''abc123'')"
    by (simp add: example_world_def)
  have h2: "api_get_transcript example_world (lit ''abc123'') [lit ''en''] = Inr example_segments"
    by (simp add: example_world_def)
  have h3: "map (\<lambda>t. t (lit ''text'')) example_segments
       = map (\<lambda>x. Some (PStr x)) [lit ''Hello world'', lit ''this is a test.'']"
    by (simp add: example_segments_def seg_def lit_def)
  have "space_joined [lit ''Hello world'', lit ''this is a test.''] = lit ''Hello world this is a test.''"
    by (simp add: lit_def)
  with fetcher_joins_segments [OF h1 h2 h3, of init_state] h1 h2 h3 show ?thesis
    by (simp add: init_state_def)
qed

text \<open>
  C4, as stated, fails. A caption track without words makes the Transcript Fetcher
  return the empty string, which is a result and not \<open>None\<close>, and the driver invokes
  the Audio Fallback Extractor all the same.
\<close>

theorem fallback_on_empty_transcript_counterexample:
  "fst (get_youtube_transcript empty_captions_world example_url init_state) = Inr (Some [])
   \<and> Some [] \<noteq> (None :: pystr option)
   \<and> filter is_download_call (calls (snd (pipeline empty_captions_world example_url init_state)))
       = [Call_download_audio example_url]"
  by (simp add: run_defs world_defs lit_append lit_append2)

text \<open>
  C4, amended. On a non-empty URL the driver invokes the Audio Fallback Extractor
  exactly once when the Transcript Fetcher's result is falsy (\<open>None\<close> or the empty
  string), and never when it is a non-empty text.
\<close>

theorem fallback_iff_falsy:
  assumes "url \<noteq> []"
    and "fst (get_youtube_transcript w url s') = Inr t"
  shows "filter is_download_call (calls (snd (pipeline w url s)))
       = filter is_download_call (calls s) @ (if truthy t then [] else [Call_download_audio url])"
proof -
  let ?s0 = "s\<lparr>display := display s @ [St_spinner (lit ''Analyzing video...'')]\<rparr>"
  from assms(2) fetcher_result_indep [of w url ?s0 s']
  have t: "fst (get_youtube_transcript w url ?s0) = Inr t" by simp
  show ?thesis
  proof (cases rule: acquire_transcript_cases [of w url ?s0])
    case (captions t1 s1)
    from captions(1) fetcher_frame(1) [of w url ?s0]
    have "calls s1 = calls s @ [Call_get_youtube_transcript url]" by simp
    moreover from captions(1) t have "t1 = t" by simp
    ultimately show ?thesis using assms(1) captions(2,3)
      by (simp add: pipeline_unfold present_results_no_download)
  next
    case (no_audio t1 s1 s2)
    from no_audio(1) fetcher_frame(1) [of w url ?s0]
    have "calls s1 = calls s @ [Call_get_youtube_transcript url]" by simp
    with no_audio(3) download_frame [of w url s1]
    have "calls s2 = calls s @ [Call_get_youtube_transcript url, Call_download_audio url]" by simp
    moreover from no_audio(1) t have "t1 = t" by simp
    ultimately show ?thesis using assms(1) no_audio(2,4)
      by (simp add: pipeline_unfold present_results_no_download)
  next
    case (audio t1 s1 q s2 r s3 b)
    from audio(1) fetcher_frame(1) [of w url ?s0]
    have "calls s1 = calls s @ [Call_get_youtube_transcript url]" by simp
    with audio(3) download_frame [of w url s1]
    have "calls s2 = calls s @ [Call_get_youtube_transcript url, Call_download_audio url]" by simp
    with audio(4) transcribe_frame(1) [of w q s2]
    have "calls s3 = calls s @ [Call_get_youtube_transcript url, Call_download_audio url,
        Call_transcribe_audio q]" by simp
    moreover from audio(1) t have "t1 = t" by simp
    ultimately show ?thesis using assms(1) audio(2,6)
      by (simp add: pipeline_unfold present_results_no_download)
  qed
qed

theorem fallback_iff_falsy_witness:
  "example_url \<noteq> []
   \<and> fst (get_youtube_transcript no_captions_world example_url init_state) = Inr None
   \<and> filter is_download_call (calls (snd (pipeline no_captions_world example_url init_state)))
       = [Call_download_audio example_url]
   \<and> fst (get_youtube_transcript example_world example_url init_state)
       = Inr (Some (lit ''Hello world this is a test.''))
   \<and> filter is_download_call (calls (snd (pipeline example_world example_url init_state))) = []"
proof -
  have u: "example_url \<noteq> []" by (simp add: example_url_def)
  have h1: "fst (get_youtube_transcript no_captions_world example_url init_state) = Inr None"
    by (simp add: run_defs world_defs)
  have h2: "fst (get_youtube_transcript example_world example_url init_state)
       = Inr (Some (lit ''Hello world this is a test.''))"
    by (simp add: run_defs world_defs lit_append lit_append2 list_all_def)
  from fallback_iff_falsy [OF u h1, of init_state] fallback_iff_falsy [OF u h2, of init_state] u h1 h2
  show ?thesis by (simp add: init_state_def)
qed

text \<open>
  C5. No exception leaves a stage: each of the four stage functions returns a value in
  every world and state. When the transcript service raises TranscriptsDisabled or
  NoTranscriptFound, the Transcript Fetcher returns \<open>None\<close> and displays nothing. When
  the \<open>try\<close> body of a stage raises any other exception, the stage returns \<open>None\<close>
  and displays one error message that carries the text of the exception.
\<close>

theorem stages_catch_every_exception:
  "(\<exists>r s'. get_youtube_transcript w url s = (Inr r, s'))
   \<and> (\<exists>r s'. download_audio w url s = (Inr r, s'))
   \<and> (\<exists>r s'. transcribe_audio w p s = (Inr r, s'))
   \<and> (\<exists>r s'. generate_summary w t m s = (Inr r, s'))
   \<and> (\<forall>vid e. yt_video_id w url = Inr vid \<and> api_get_transcript w vid [lit ''en''] = Inl e
          \<and> (exn_cls e = TranscriptsDisabled \<or> exn_cls e = NoTranscriptFound)
        \<longrightarrow> fst (get_youtube_transcript w url s) = Inr None
          \<and> display (snd (get_youtube_transcript w url s)) = display s)
   \<and> (\<forall>e s'. get_youtube_transcript_try w url (s\<lparr>calls := calls s @ [Call_get_youtube_transcript url]\<rparr>) = (Inl e, s')
        \<longrightarrow> get_youtube_transcript w url s =
             (Inr None,
              if exn_cls e = TranscriptsDisabled \<or> exn_cls e = NoTranscriptFound then s'
              else s'\<lparr>display := display s' @ [St_error (lit ''Error: '' @ exn_str e)]\<rparr>))
   \<and> (\<forall>e s'. download_audio_try w url (s\<lparr>calls := calls s @ [Call_download_audio url]\<rparr>) = (Inl e, s')
        \<longrightarrow> download_audio w url s =
             (Inr None, s'\<lparr>display := display s' @ [St_error (lit ''Download error: '' @ exn_str e)]\<rparr>))
   \<and> (\<forall>e s'. transcribe_audio_try w p (s\<lparr>calls := calls s @ [Call_transcribe_audio p]\<rparr>) = (Inl e, s')
        \<longrightarrow> transcribe_audio w p s =
             (Inr None, s'\<lparr>display := display s' @ [St_error (lit ''Transcription error: '' @ exn_str e)]\<rparr>))
   \<and> (\<forall>e s'. generate_summary_try w t m (s\<lparr>calls := calls s @ [Call_generate_summary t m]\<rparr>) = (Inl e, s')
        \<longrightarrow> generate_summary w t m s =
             (Inr None, s'\<lparr>display := display s' @ [St_error (lit ''Summarization error: '' @ exn_str e)]\<rparr>))"
proof -
  have a: "\<forall>vid e. yt_video_id w url = Inr vid \<and> api_get_transcript w vid [lit ''en''] = Inl e
          \<and> (exn_cls e = TranscriptsDisabled \<or> exn_cls e = NoTranscriptFound)
        \<longrightarrow> fst (get_youtube_transcript w url s) = Inr None
          \<and> display (snd (get_youtube_transcript w url s)) = display s"
    by (auto simp: get_youtube_transcript_def get_youtube_transcript_try_def prog_defs)
  have b: "\<forall>e s'. get_youtube_transcript_try w url (s\<lparr>calls := calls s @ [Call_get_youtube_transcript url]\<rparr>) = (Inl e, s')
        \<longrightarrow> get_youtube_transcript w url s =
             (Inr None,
              if exn_cls e = TranscriptsDisabled \<or> exn_cls e = NoTranscriptFound then s'
              else s'\<lparr>display := display s' @ [St_error (lit ''Error: '' @ exn_str e)]\<rparr>)"
    by (auto simp: get_youtube_transcript_def prog_defs)
  have c: "\<forall>e s'. download_audio_try w url (s\<lparr>calls := calls s @ [Call_download_audio url]\<rparr>) = (Inl e, s')
        \<longrightarrow> download_audio w url s =
             (Inr None, s'\<lparr>display := display s' @ [St_error (lit ''Download error: '' @ exn_str e)]\<rparr>)"
    by (auto simp: download_audio_def prog_defs)
  have d: "\<forall>e s'. transcribe_audio_try w p (s\<lparr>calls := calls s @ [Call_transcribe_audio p]\<rparr>) = (Inl e, s')
        \<longrightarrow> transcribe_audio w p s =
             (Inr None, s'\<lparr>display := display s' @ [St_error (lit ''Transcription error: '' @ exn_str e)]\<rparr>)"
    by (auto simp: transcribe_audio_def prog_defs)
  have e: "\<forall>e s'. generate_summary_try w t m (s\<lparr>calls := calls s @ [Call_generate_summary t m]\<rparr>) = (Inl e, s')
        \<longrightarrow> generate_summary w t m s =
             (Inr None, s'\<lparr>display := display s' @ [St_error (lit ''Summarization error: '' @ exn_str e)]\<rparr>)"
    by (auto simp: generate_summary_def prog_defs)
  from fetcher_total [of w url s] download_total [of w url s] transcribe_total [of w p s]
    summary_total [of w t m s] a b c d e
  show ?thesis by blast
qed

theorem stages_catch_every_exception_witness:
  "yt_video_id no_captions_world example_url = Inr (lit ''abc123'')
   \<and> api_get_transcript no_captions_world (lit ''abc123'') [lit ''en'']
       = Inl (Exn TranscriptsDisabled (lit ''Subtitles are disabled for this video''))
   \<and> fst (get_youtube_transcript no_captions_world example_url init_state) = Inr None
   \<and> display (snd (get_youtube_transcript no_captions_world example_url init_state)) = []
   \<and> fst (get_youtube_transcript_try (example_world\<lparr>api_get_transcript := (\<lambda>v ls. Inr [Map.empty])\<rparr>)
        example_url (init_state\<lparr>calls := calls init_state @ [Call_get_youtube_transcript example_url]\<rparr>))
       = Inl (Exn KeyError (repr (lit ''text'')))
   \<and> fst (get_youtube_transcript (example_world\<lparr>api_get_transcript := (\<lambda>v ls. Inr [Map.empty])\<rparr>)
        example_url init_state) = Inr None
   \<and> display (snd (get_youtube_transcript (example_world\<lparr>api_get_transcript := (\<lambda>v ls. Inr [Map.empty])\<rparr>)
        example_url init_state)) = [St_error (lit ''Error: '' @ repr (lit ''text''))]
   \<and> fst (download_audio_try example_world example_url
        (init_state\<lparr>files := [lit ''/app/temp_audio'' \<mapsto> File []]\<rparr>
           \<lparr>calls := calls (init_state\<lparr>files := [lit ''/app/temp_audio'' \<mapsto> File []]\<rparr>) @ [Call_download_audio example_url]\<rparr>))
       = Inl (Exn FileExistsError (errno_msg ''[Errno 17] File exists'' temp_audio))
   \<and> fst (download_audio example_world example_url (init_state\<lparr>files := [lit ''/app/temp_audio'' \<mapsto> File []]\<rparr>))
       = Inr None
   \<and> display (snd (download_audio example_world example_url (init_state\<lparr>files := [lit ''/app/temp_audio'' \<mapsto> File []]\<rparr>)))
       = [St_error (lit ''Download error: '' @ errno_msg ''[Errno 17] File exists'' temp_audio)]
   \<and> fst (transcribe_audio_try example_world (lit ''gone.mp4'')
        (init_state\<lparr>calls := calls init_state @ [Call_transcribe_audio (lit ''gone.mp4'')]\<rparr>))
       = Inl (Exn FileNotFoundError (errno_msg ''[Errno 2] No such file or directory'' (lit ''gone.mp4'')))
   \<and> fst (transcribe_audio example_world (lit ''gone.mp4'') init_state) = Inr None
   \<and> display (snd (transcribe_audio example_world (lit ''gone.mp4'') init_state))
       = [St_error (lit ''Transcription error: ''
            @ errno_msg ''[Errno 2] No such file or directory'' (lit ''gone.mp4''))]
   \<and> fst (generate_summary_try chat_down_world (lit ''Hello'') 3000
        (init_state\<lparr>calls := calls init_state @ [Call_generate_summary (lit ''Hello'') 3000]\<rparr>))
       = Inl (Exn (OtherException (lit ''RateLimitError'')) (lit ''Rate limit reached''))
   \<and> fst (generate_summary chat_down_world (lit ''Hello'') 3000 init_state) = Inr None
   \<and> display (snd (generate_summary chat_down_world (lit ''Hello'') 3000 init_state))
       = [St_error (lit ''Summarization error: Rate limit reached'')]"
proof -
  let ?e = "Exn TranscriptsDisabled (lit ''Subtitles are disabled for this video'')"
  let ?f = "Exn (OtherException (lit ''RateLimitError'')) (lit ''Rate limit reached'')"
  let ?wk = "example_world\<lparr>api_get_transcript := (\<lambda>v ls. Inr [Map.empty])\<rparr>"
  let ?k = "Exn KeyError (repr (lit ''text''))"
  let ?blocked = "init_state\<lparr>files := [lit ''/app/temp_audio'' \<mapsto> File []]\<rparr>"
  let ?x = "Exn FileExistsError (errno_msg ''[Errno 17] File exists'' temp_audio)"
  let ?n = "Exn FileNotFoundError (errno_msg ''[Errno 2] No such file or directory'' (lit ''gone.mp4''))"
  have h1: "yt_video_id no_captions_world example_url = Inr (lit ''abc123'')"
    by (simp add: world_defs)
  have h2: "api_get_transcript no_captions_world (lit ''abc123'') [lit ''en''] = Inl ?e"
    by (simp add: world_defs)
  have h3: "exn_cls ?e = TranscriptsDisabled \<or> exn_cls ?e = NoTranscriptFound" by simp
  obtain sk where k1: "get_youtube_transcript_try ?wk example_url
        (init_state\<lparr>calls := calls init_state @ [Call_get_youtube_transcript example_url]\<rparr>) = (Inl ?k, sk)"
    and k2: "display sk = []"
    by (simp add: run_defs world_defs)
  obtain sx where x1: "download_audio_try example_world example_url
        (?blocked\<lparr>calls := calls ?blocked @ [Call_download_audio example_url]\<rparr>) = (Inl ?x, sx)"
    and x2: "display sx = []"
    by (simp add: run_defs world_defs)
  obtain sn where n1: "transcribe_audio_try example_world (lit ''gone.mp4'')
        (init_state\<lparr>calls := calls init_state @ [Call_transcribe_audio (lit ''gone.mp4'')]\<rparr>) = (Inl ?n, sn)"
    and n2: "display sn = []"
    by (simp add: run_defs world_defs)
  obtain sf where f1: "generate_summary_try chat_down_world (lit ''Hello'') 3000
        (init_state\<lparr>calls := calls init_state @ [Call_generate_summary (lit ''Hello'') 3000]\<rparr>) = (Inl ?f, sf)"
    and f2: "display sf = []"
    by (simp add: run_defs world_defs)
  from stages_catch_every_exception [of no_captions_world example_url init_state] h1 h2 h3
  have r1: "fst (get_youtube_transcript no_captions_world example_url init_state) = Inr None
     \<and> display (snd (get_youtube_transcript no_captions_world example_url init_state)) = display init_state"
    by blast
  from stages_catch_every_exception [of ?wk example_url init_state] k1
  have r2: "get_youtube_transcript ?wk example_url init_state =
      (Inr None, sk\<lparr>display := display sk @ [St_error (lit ''Error: '' @ exn_str ?k)]\<rparr>)"
    by auto
  from stages_catch_every_exception [of example_world example_url ?blocked] x1
  have r3: "download_audio example_world example_url ?blocked =
      (Inr None, sx\<lparr>display := display sx @ [St_error (lit ''Download error: '' @ exn_str ?x)]\<rparr>)"
    by blast
  from stages_catch_every_exception [of example_world example_url init_state "lit ''gone.mp4''"] n1
  have r4: "transcribe_audio example_world (lit ''gone.mp4'') init_state =
      (Inr None, sn\<lparr>display := display sn @ [St_error (lit ''Transcription error: '' @ exn_str ?n)]\<rparr>)"
    by blast
  from stages_catch_every_exception [of chat_down_world example_url init_state "[]" "lit ''Hello''" 3000] f1
  have r5: "generate_summary chat_down_world (lit ''Hello'') 3000 init_state =
      (Inr None, sf\<lparr>display := display sf @ [St_error (lit ''Summarization error: '' @ exn_str ?f)]\<rparr>)"
    by blast
  from h1 h2 r1 r2 r3 r4 r5 k1 k2 x1 x2 n1 n2 f1 f2 show ?thesis
    by (simp add: init_state_def lit_append)
qed

text \<open>
  C6. In every run of the driver, each invocation of the Summarizer is on a non-empty
  text; and when the Transcript Fetcher's result is absent or empty (on a non-empty
  URL), the driver invokes the Audio Fallback Extractor.
\<close>

theorem summarizer_gets_nonempty_transcript:
  assumes "calls (snd (pipeline w url s)) = calls s @ cs"
  shows "(\<forall>x m. Call_generate_summary x m \<in> set cs \<longrightarrow> x \<noteq> [])
       \<and> (url \<noteq> [] \<and> fst (get_youtube_transcript w url s') = Inr t \<and> \<not> truthy t
            \<longrightarrow> Call_download_audio url \<in> set cs)"
proof (cases "url = []")
  case True
  then have "calls (snd (pipeline w url s)) = calls s"
    by (simp add: pipeline_def show_widget_def)
  with assms True show ?thesis by simp
next
  case url: False
  let ?s0 = "s\<lparr>display := display s @ [St_spinner (lit ''Analyzing video...'')]\<rparr>"
  let ?summary = "\<lambda>r. case r of None \<Rightarrow> [] | Some x \<Rightarrow> if x \<noteq> [] then [Call_generate_summary x 3000] else []"
  have nonempty: "\<forall>x m. Call_generate_summary x m \<in> set (?summary r) \<longrightarrow> x \<noteq> []" for r
    by (auto split: option.splits)
  show ?thesis
  proof (cases rule: acquire_transcript_cases [of w url ?s0])
    case (captions t1 s1)
    from captions(1) fetcher_frame(1) [of w url ?s0]
    have "calls s1 = calls s @ [Call_get_youtube_transcript url]" by simp
    with url captions(3) assms
    have cs: "cs = Call_get_youtube_transcript url # ?summary t1"
      by (simp add: pipeline_unfold present_results_calls)
    from captions(1) fetcher_result_indep [of w url ?s0 s']
    have "fst (get_youtube_transcript w url s') = Inr t1" by simp
    with captions(2) cs nonempty [of t1] show ?thesis by auto
  next
    case (no_audio t1 s1 s2)
    from no_audio(1) fetcher_frame(1) [of w url ?s0]
    have "calls s1 = calls s @ [Call_get_youtube_transcript url]" by simp
    with no_audio(3) download_frame [of w url s1]
    have "calls s2 = calls s @ [Call_get_youtube_transcript url, Call_download_audio url]" by simp
    with url no_audio(4) assms
    have cs: "cs = [Call_get_youtube_transcript url, Call_download_audio url] @ ?summary t1"
      by (simp add: pipeline_unfold present_results_calls)
    with nonempty [of t1] show ?thesis by auto
  next
    case (audio t1 s1 q s2 r s3 b)
    from audio(1) fetcher_frame(1) [of w url ?s0]
    have "calls s1 = calls s @ [Call_get_youtube_transcript url]" by simp
    with audio(3) download_frame [of w url s1]
    have "calls s2 = calls s @ [Call_get_youtube_transcript url, Call_download_audio url]" by simp
    with audio(4) transcribe_frame(1) [of w q s2]
    have "calls s3 = calls s @ [Call_get_youtube_transcript url, Call_download_audio url,
        Call_transcribe_audio q]" by simp
    with url audio(6) assms
    have cs: "cs = [Call_get_youtube_transcript url, Call_download_audio url,
        Call_transcribe_audio q] @ ?summary r"
      by (simp add: pipeline_unfold present_results_calls)
    with nonempty [of r] show ?thesis by auto
  qed
qed

theorem summarizer_gets_nonempty_transcript_witness:
  "calls (snd (pipeline empty_captions_world example_url init_state))
     = calls init_state @ [Call_get_youtube_transcript example_url, Call_download_audio example_url,
         Call_transcribe_audio (lit ''/app/temp_audio/Talk.mp4''),
         Call_generate_summary (lit ''spoken words'') 3000]
   \<and> example_url \<noteq> []
   \<and> fst (get_youtube_transcript empty_captions_world example_url init_state) = Inr (Some [])
   \<and> \<not> truthy (Some [])
   \<and> Call_download_audio example_url \<in> set [Call_get_youtube_transcript example_url,
         Call_download_audio example_url, Call_transcribe_audio (lit ''/app/temp_audio/Talk.mp4''),
         Call_generate_summary (lit ''spoken words'') 3000]
   \<and> lit ''spoken words'' \<noteq> []"
proof -
  let ?cs = "[Call_get_youtube_transcript example_url, Call_download_audio example_url,
         Call_transcribe_audio (lit ''/app/temp_audio/Talk.mp4''),
         Call_generate_summary (lit ''spoken words'') 3000]"
  have h1: "calls (snd (pipeline empty_captions_world example_url init_state)) = calls init_state @ ?cs"
    by (simp add: run_defs world_defs lit_append lit_append2)
  have h2: "example_url \<noteq> []" by (simp add: example_url_def)
  have h3: "fst (get_youtube_transcript empty_captions_world example_url init_state) = Inr (Some [])"
    by (simp add: run_defs world_defs)
  have h4: "\<not> truthy (Some [])" by simp
  from summarizer_gets_nonempty_transcript [OF h1, of init_state "Some []"] h2 h3 h4
  have "Call_download_audio example_url \<in> set ?cs"
    and "\<forall>x m. Call_generate_summary x m \<in> set ?cs \<longrightarrow> x \<noteq> []" by blast+
  then have "Call_download_audio example_url \<in> set ?cs" and "lit ''spoken words'' \<noteq> []"
    by auto
  with h1 h2 h3 h4 show ?thesis by blast
qed



text \<open>
  C8, as stated, fails for a transcript over the token budget: the user message then
  carries the fixed request followed by the first 10500 characters, not by the
  transcript.
\<close>

theorem summary_prompt_counterexample:
  "long_text \<noteq> []
   \<and> requests (snd (generate_summary example_world long_text 3000 init_state))
       = [Chat_request (summary_request (replicate 10500 97))]
   \<and> content (last (req_messages (summary_request (replicate 10500 97))))
       = user_prefix @ replicate 10500 97
   \<and> user_prefix @ replicate 10500 97 \<noteq> user_prefix @ long_text"
proof -
  have h: "count_tokens example_world long_text = Inr 10501"
    by (simp add: count_tokens_def example_world_def long_text_def)
  have "length (replicate 10500 (97::nat)) \<noteq> length long_text"
    by (simp add: long_text_def)
  then have ne: "replicate 10500 (97::nat) \<noteq> long_text" by fastforce
  have "long_text \<noteq> []"
  proof
    assume "long_text = []"
    then have "length long_text = 0" by simp
    then show False by (simp add: long_text_def)
  qed
  with summary_requests [OF h, of 3000 init_state] ne show ?thesis
    by (simp add: char_limit_3000 slice_to_def init_state_def summary_request_def long_text_def)
qed

text \<open>
  C8, amended. When the tokenizer returns a count, the Summarizer sends one request
  with the model \<open>gpt-3.5-turbo\<close>, exactly two messages (the fixed system instruction,
  and the fixed request for a bullet summary followed by the transcript, cut to its
  first 10500 characters when the count exceeds 3000), temperature 0.3 and at most 500
  output tokens; and when the service answers with at least one choice that has a
  content, the Summarizer returns the content of the first choice.
\<close>

theorem summary_prompt:
  assumes "count_tokens w txt = Inr n"
  shows "requests (snd (generate_summary w txt 3000 s)) = requests s @
      [Chat_request
        \<lparr>req_model = lit ''gpt-3.5-turbo'',
         req_messages =
           [\<lparr>role = lit ''system'',
             content = lit ''You are a helpful assistant that summarizes video transcripts.''\<rparr>,
            \<lparr>role = lit ''user'',
             content = lit ''Create a detailed summary with key points in bullet format:'' @ [10, 10]
               @ (if n > 3000 then take 10500 txt else txt)\<rparr>],
         req_temperature = 3 / 10,
         req_max_tokens = 500\<rparr>]
    \<and> (\<forall>c cs x. chat_completion_create w (summary_request (if n > 3000 then take 10500 txt else txt))
                  = Inr (c # cs)
               \<and> choice_message c (lit ''content'') = Some x
          \<longrightarrow> fst (generate_summary w txt 3000 s) = Inr (Some x))"
proof (rule conjI)
  from summary_requests [OF assms, of 3000 s]
  show "requests (snd (generate_summary w txt 3000 s)) = requests s @
      [Chat_request
        \<lparr>req_model = lit ''gpt-3.5-turbo'',
         req_messages =
           [\<lparr>role = lit ''system'',
             content = lit ''You are a helpful assistant that summarizes video transcripts.''\<rparr>,
            \<lparr>role = lit ''user'',
             content = lit ''Create a detailed summary with key points in bullet format:'' @ [10, 10]
               @ (if n > 3000 then take 10500 txt else txt)\<rparr>],
         req_temperature = 3 / 10,
         req_max_tokens = 500\<rparr>]"
    by (simp add: char_limit_3000 slice_to_def summary_request_def system_prompt_def user_prefix_def)
next
  from assms
  show "\<forall>c cs x. chat_completion_create w (summary_request (if n > 3000 then take 10500 txt else txt))
                  = Inr (c # cs)
               \<and> choice_message c (lit ''content'') = Some x
          \<longrightarrow> fst (generate_summary w txt 3000 s) = Inr (Some x)"
    by (auto simp: generate_summary_def generate_summary_try_def prog_defs char_limit_3000
        slice_to_def index0_def getitem_def)
qed

theorem summary_prompt_witness:
  "count_tokens example_world (lit ''Hello'') = Inr 5
   \<and> requests (snd (generate_summary example_world (lit ''Hello'') 3000 init_state)) =
      [Chat_request
        \<lparr>req_model = lit ''gpt-3.5-turbo'',
         req_messages =
           [\<lparr>role = lit ''system'',
             content = lit ''You are a helpful assistant that summarizes video transcripts.''\<rparr>,
            \<lparr>role = lit ''user'',
             content = lit ''Create a detailed summary with key points in bullet format:'' @ [10, 10]
               @ lit ''Hello''\<rparr>],
         req_temperature = 3 / 10,
         req_max_tokens = 500\<rparr>]
   \<and> chat_completion_create example_world (summary_request (lit ''Hello''))
       = Inr [\<lparr>choice_message = [lit ''role'' \<mapsto> lit ''assistant'', lit ''content'' \<mapsto> lit ''- a greeting'']\<rparr>]
   \<and> fst (generate_summary example_world (lit ''Hello'') 3000 init_state) = Inr (Some (lit ''- a greeting''))"
proof -
  let ?c = "\<lparr>choice_message = [lit ''role'' \<mapsto> lit ''assistant'', lit ''content'' \<mapsto> lit ''- a greeting'']\<rparr>"
  have h1: "count_tokens example_world (lit ''Hello'') = Inr 5"
    by (simp add: count_tokens_def example_world_def lit_def)
  have h2: "chat_completion_create example_world (summary_request (if (5::int) > 3000 then take 10500 (lit ''Hello'') else lit ''Hello''))
       = Inr (?c # [])"
    by (simp add: example_world_def)
  have h3: "choice_message ?c (lit ''content'') = Some (lit ''- a greeting'')" by simp
  from summary_prompt [OF h1, of init_state] h2 h3
  have "requests (snd (generate_summary example_world (lit ''Hello'') 3000 init_state)) = requests init_state @
      [Chat_request
        \<lparr>req_model = lit ''gpt-3.5-turbo'',
         req_messages =
           [\<lparr>role = lit ''system'',
             content = lit ''You are a helpful assistant that summarizes video transcripts.''\<rparr>,
            \<lparr>role = lit ''user'',
             content = lit ''Create a detailed summary with key points in bullet format:'' @ [10, 10]
               @ (if (5::int) > 3000 then take 10500 (lit ''Hello'') else lit ''Hello'')\<rparr>],
         req_temperature = 3 / 10,
         req_max_tokens = 500\<rparr>]"
    and "fst (generate_summary example_world (lit ''Hello'') 3000 init_state) = Inr (Some (lit ''- a greeting''))"
    by blast+
  with h1 h2 show ?thesis by (simp add: init_state_def)
qed

text \<open>
  C9. When the button fires on an empty URL, the driver displays the warning and does
  nothing else: no stage function is invoked, no request is sent and no file changes.
\<close>

theorem empty_url_only_warns:
  "fst (pipeline w [] s) = Inr ()
   \<and> display (snd (pipeline w [] s)) = display s @ [St_warning (lit ''Please enter a valid YouTube URL'')]
   \<and> calls (snd (pipeline w [] s)) = calls s
   \<and> requests (snd (pipeline w [] s)) = requests s
   \<and> files (snd (pipeline w [] s)) = files s"
  by (simp add: pipeline_def show_widget_def)

text \<open>
  C10, as stated, fails. With a summary that is present but empty, the transcript and
  the summary are both present and the page shows no download button.
\<close>

theorem download_buttons_iff_nonempty_counterexample:
  "fst (acquire_transcript empty_summary_world example_url init_state)
     = Inr (Some (lit ''Hello world this is a test.''))
   \<and> fst (generate_summary empty_summary_world (lit ''Hello world this is a test.'') 3000 init_state)
     = Inr (Some [])
   \<and> filter is_download_button (display (snd (pipeline empty_summary_world example_url init_state))) = []"
  by (simp add: run_defs world_defs lit_append lit_append2 list_all_def)

text \<open>
  C10, amended. The two download buttons (\<open>summary.txt\<close> with the summary,
  \<open>transcript.txt\<close> with the transcript) are added exactly when the transcript and the
  summary are both present and non-empty, and otherwise none is added; a non-empty
  transcript is displayed in the expander whatever the Summarizer returns.
\<close>

theorem download_buttons_iff_nonempty:
  "filter is_download_button (display (snd (present_results w t s))) =
     filter is_download_button (display s) @
     (case t of
        None \<Rightarrow> []
      | Some x \<Rightarrow>
          if x = [] then []
          else (case fst (generate_summary w x 3000 s') of
                  Inr (Some sm) \<Rightarrow>
                    if sm = [] then []
                    else [St_download_button 1 (lit ''Download Summary'') sm (lit ''summary.txt''),
                          St_download_button 2 (lit ''Download Transcript'') x (lit ''transcript.txt'')]
                | _ \<Rightarrow> []))
   \<and> (\<forall>x. t = Some x \<and> x \<noteq> []
        \<longrightarrow> St_expander_write (lit ''View Transcript'') x \<in> set (display (snd (present_results w t s))))"
proof (cases "truthy t")
  case False
  then show ?thesis by (cases t) (auto simp: present_results_def show_widget_def)
next
  case True
  then obtain x where t: "t = Some x" "x \<noteq> []" by (cases t) auto
  let ?s3 = "s\<lparr>display := display s @ [St_subheader (128221 # lit '' Full Transcript''),
      St_expander_write (lit ''View Transcript'') x,
      St_subheader (128204 # lit '' AI-Generated Summary'')]\<rparr>"
  obtain r s2 where g: "generate_summary w x 3000 ?s3 = (Inr r, s2)"
    using summary_total by blast
  with summary_result_indep [of w x 3000 s' ?s3]
  have r: "fst (generate_summary w x 3000 s') = Inr r" by simp
  from g summary_display [of w x 3000 ?s3] obtain ws where
    ws: "display s2 = display ?s3 @ ws" "filter is_download_button ws = []" by auto
  from t g r ws show ?thesis
    by (auto simp: present_results_def show_widget_def bnd_def split: option.splits)
qed

theorem download_buttons_iff_nonempty_witness:
  "filter is_download_button (display (snd (present_results example_world
       (Some (lit ''Hello world this is a test.'')) init_state)))
     = [St_download_button 1 (lit ''Download Summary'') (lit ''- a greeting'') (lit ''summary.txt''),
        St_download_button 2 (lit ''Download Transcript'') (lit ''Hello world this is a test.'')
          (lit ''transcript.txt'')]
   \<and> filter is_download_button (display (snd (present_results chat_down_world
       (Some (lit ''Hello world this is a test.'')) init_state))) = []
   \<and> lit ''Hello world this is a test.'' \<noteq> []
   \<and> St_expander_write (lit ''View Transcript'') (lit ''Hello world this is a test.'')
       \<in> set (display (snd (present_results chat_down_world
             (Some (lit ''Hello world this is a test.'')) init_state)))"
proof -
  let ?x = "lit ''Hello world this is a test.''"
  have h1: "fst (generate_summary example_world ?x 3000 init_state) = Inr (Some (lit ''- a greeting''))"
    by (simp add: run_defs world_defs)
  have h2: "fst (generate_summary chat_down_world ?x 3000 init_state) = Inr None"
    by (simp add: run_defs world_defs)
  have h3: "?x \<noteq> []" by simp
  from download_buttons_iff_nonempty [of example_world "Some ?x" init_state init_state]
    download_buttons_iff_nonempty [of chat_down_world "Some ?x" init_state init_state]
    h1 h2 h3
  show ?thesis by (simp add: init_state_def)
qed

end
